theory Spec2Isabelle
  imports Complex_Main
begin

section \<open>Python values used by the agent and the orchestrator\<close>

text \<open>
  Exceptions are values: a class and the message that \<open>str(e)\<close> gives. Only the classes
  that the code names or that its operations raise are distinguished; \<open>OtherException\<close>
  is any other subclass of \<open>Exception\<close> that is not a \<open>ValueError\<close>.
  \<open>ConfigurationError\<close>, \<open>ProviderError\<close>, \<open>DeepSeekAPIError\<close> and
  \<open>OpenRouterAPIError\<close> derive from \<open>Exception\<close> directly or through \<open>ProviderError\<close>
  (config_manager.py, provider_factory.py); \<open>json.JSONDecodeError\<close> derives from
  \<open>ValueError\<close>.
\<close>

datatype exn_class =
    JSONDecodeError | ValueError | TypeError | KeyError | IndexError | TimeoutError
  | ConfigurationError | DeepSeekAPIError | OpenRouterAPIError | OtherException

type_synonym exn = "exn_class \<times> string"

text \<open>What \<open>except (json.JSONDecodeError, ValueError)\<close> catches.\<close>

fun is_ValueError :: "exn \<Rightarrow> bool" where
  "is_ValueError (c, m) = (c = JSONDecodeError \<or> c = ValueError)"

text \<open>
  The values \<open>json.loads\<close> returns. Numbers are kept as integers: for \<open>len\<close>,
  indexing and \<open>in\<close> a float behaves as an int does. An object is the association list
  of the parsed dict.
\<close>

datatype json =
    JNull | JBool bool | JNum int | JStr string | JArr "json list" | JObj "(string \<times> json) list"

definition nl :: string where
  "nl = [CHR 0x0A]"

text \<open>\<open>sep.join(xs)\<close> on a list of \<open>str\<close>.\<close>

fun join :: "string \<Rightarrow> string list \<Rightarrow> string" where
  "join sep [] = []"
| "join sep [x] = x"
| "join sep (x # y # ys) = x @ sep @ join sep (y # ys)"

text \<open>
  \<open>"\n\n".join(xs)\<close> on a list of parsed values: Python raises \<open>TypeError\<close> at
  the first item that is not a \<open>str\<close>.
\<close>

fun as_strs :: "json list \<Rightarrow> string list option" where
  "as_strs [] = Some []"
| "as_strs (JStr s # vs) = (case as_strs vs of None \<Rightarrow> None | Some ss \<Rightarrow> Some (s # ss))"
| "as_strs (v # vs) = None"

definition join_content :: "json list \<Rightarrow> exn + string" where
  "join_content vs =
     (case as_strs vs of
        None \<Rightarrow> Inl (TypeError, ''sequence item: expected str instance'')
      | Some ss \<Rightarrow> Inr (join (nl @ nl) ss))"

text \<open>\<open>str(n)\<close> for an integer.\<close>

fun str_nat :: "nat \<Rightarrow> string" where
  "str_nat n =
     (if n < 10 then [''0123456789'' ! n]
      else str_nat (n div 10) @ [''0123456789'' ! (n mod 10)])"

definition str_int :: "int \<Rightarrow> string" where
  "str_int i = (if i < 0 then ''-'' @ str_nat (nat (- i)) else str_nat (nat i))"

text \<open>\<open>s.lower()\<close> on ASCII letters, and \<open>sub in s\<close>.\<close>

definition lower_char :: "char \<Rightarrow> char" where
  "lower_char c =
     (let n = (of_char c :: nat)
      in if 65 \<le> n \<and> n \<le> 90 then char_of (n + 32) else c)"

definition lower :: "string \<Rightarrow> string" where
  "lower s = map lower_char s"

fun contains :: "string \<Rightarrow> string \<Rightarrow> bool" where
  "contains sub [] = (sub = [])"
| "contains sub (c # cs) = (take (length sub) (c # cs) = sub \<or> contains sub cs)"

section \<open>agent.py: UniversalAgent\<close>

text \<open>
  A tool schema is the dict built by \<open>to_openrouter_schema\<close>; the orchestrator reads
  only \<open>tool.get('function', {}).get('name')\<close>, which may be absent.
\<close>

record tool_schema =
  schema_type :: string
  function_name :: "string option"
  function_description :: string
  function_parameters :: json

record tool_call =
  call_id :: string
  call_name :: string
  call_arguments :: string

datatype message =
    SystemMsg string
  | UserMsg json
  | AssistantMsg "string option" "tool_call list"
  | ToolMsg string string string

text \<open>
  The message of a choice: \<open>content\<close> is a \<open>str\<close> or \<open>None\<close>;
  \<open>tool_calls\<close> is a list, and \<open>None\<close> is the empty list (both are falsy).
  A response holds a list of choices, or \<open>None\<close> in their place.
\<close>

record assistant_message =
  content :: "string option"
  tool_calls :: "tool_call list"

record chat_completion =
  choices :: "assistant_message list option"

text \<open>
  The keyword arguments of \<open>client.chat.completions.create\<close>. The key \<open>tools\<close> is
  present or not.
\<close>

record api_params =
  p_model :: string
  p_messages :: "message list"
  p_tools :: "tool_schema list option"

text \<open>
  An agent after \<open>__init__\<close>. The provider's endpoint is the oracle \<open>client\<close>: for
  each request it raises or gives a response. A tool of
  \<open>tool_mapping\<close> takes the parsed arguments and gives the \<open>json.dumps\<close> of its
  result; the call and the dump may raise. \<open>max_iterations\<close> is the
  entry of the \<open>agent\<close> block of the configuration, when present.
\<close>

record agent =
  provider_type :: string
  model :: string
  tools :: "tool_schema list"
  tool_mapping :: "(string \<times> (json \<Rightarrow> exn + string)) list"
  client :: "api_params \<Rightarrow> exn + chat_completion"
  system_prompt :: string
  max_iterations :: "int option"

definition dummy_tool :: tool_schema where
  "dummy_tool =
     \<lparr> schema_type = ''function'',
       function_name = Some ''dummy_tool'',
       function_description = ''A dummy tool that does nothing'',
       function_parameters =
         JObj [(''type'', JStr ''object''), (''properties'', JObj []), (''required'', JArr [])] \<rparr>"

text \<open>The request parameters that \<open>call_llm\<close> prepares.\<close>

definition build_api_params :: "agent \<Rightarrow> message list \<Rightarrow> api_params" where
  "build_api_params a msgs =
     (let params = \<lparr> p_model = model a, p_messages = msgs, p_tools = None \<rparr>
      in if provider_type a = ''deepseek'' then
           (if tools a \<noteq> [] then params \<lparr> p_tools := Some (tools a) \<rparr>
            else params \<lparr> p_tools := Some [dummy_tool] \<rparr>)
         else if tools a \<noteq> [] then params \<lparr> p_tools := Some (tools a) \<rparr>
         else params)"

definition bulb :: string where
  "bulb = [CHR 0xF0, CHR 0x9F, CHR 0x92, CHR 0xA1]"

text \<open>The exception that \<open>call_llm\<close> raises in place of the client's.\<close>

definition wrap_error :: "string \<Rightarrow> exn \<Rightarrow> exn" where
  "wrap_error ptype e =
     (let s = snd e in
      if ptype = ''deepseek'' then
        (DeepSeekAPIError,
         ''DeepSeek API call failed: '' @ s @
         (if contains ''api_key'' (lower s) then
            nl @ bulb @ '' Check your DeepSeek API key in the configuration file''
          else if contains ''rate'' (lower s) then
            nl @ bulb @ '' DeepSeek rate limit reached. Try again later or during off-peak hours (16:30-00:30 UTC)''
          else []))
      else if ptype = ''openrouter'' then
        (OpenRouterAPIError,
         ''OpenRouter API call failed: '' @ s @
         (if contains ''api_key'' (lower s) then
            nl @ bulb @ '' Check your OpenRouter API key in the configuration file''
          else []))
      else (OtherException, ''LLM call failed: '' @ s))"

definition call_llm :: "agent \<Rightarrow> message list \<Rightarrow> exn + chat_completion" where
  "call_llm a msgs =
     (case client a (build_api_params a msgs) of
        Inr response \<Rightarrow> Inr response
      | Inl e \<Rightarrow> Inl (wrap_error (provider_type a) e))"

text \<open>\<open>response.choices[0].message\<close>, evaluated by \<open>run\<close> outside \<open>call_llm\<close>.\<close>

definition first_choice :: "chat_completion \<Rightarrow> exn + assistant_message" where
  "first_choice r =
     (case choices r of
        None \<Rightarrow> Inl (TypeError, ''NoneType object is not subscriptable'')
      | Some [] \<Rightarrow> Inl (IndexError, ''list index out of range'')
      | Some (am # rest) \<Rightarrow> Inr am)"

text \<open>
  The two library functions whose results the code depends on are parameters:
  \<open>loads\<close> is \<open>json.loads\<close> (it raises \<open>JSONDecodeError\<close> on text that is not
  JSON) and \<open>format\<close> is \<open>str.format\<close> with keyword arguments (it raises on a
  template with an unknown placeholder or a stray brace).
\<close>

record pylib =
  loads :: "string \<Rightarrow> exn + json"
  format :: "string \<Rightarrow> (string \<times> string) list \<Rightarrow> exn + string"

text \<open>
  \<open>handle_tool_call\<close> never raises: any failure becomes the content of the tool
  message. \<open>json.dumps\<close> of the two error dicts is written out for a message without
  characters that JSON escapes.
\<close>

definition error_content :: "string \<Rightarrow> string" where
  \<open>error_content m = ''{"error": "'' @ m @ ''"}''\<close>

definition handle_tool_call :: "pylib \<Rightarrow> agent \<Rightarrow> tool_call \<Rightarrow> message" where
  "handle_tool_call L a tc =
     ToolMsg (call_id tc) (call_name tc)
       (case loads L (call_arguments tc) of
          Inl e \<Rightarrow> error_content (''Tool execution failed: '' @ snd e)
        | Inr tool_args \<Rightarrow>
            (case map_of (tool_mapping a) (call_name tc) of
               None \<Rightarrow> error_content (''Unknown tool: '' @ call_name tc)
             | Some f \<Rightarrow>
                 (case f tool_args of
                    Inr dumped \<Rightarrow> dumped
                  | Inl e \<Rightarrow> error_content (''Tool execution failed: '' @ snd e))))"

text \<open>
  What the two identical blocks of \<open>run\<close> append for a \<open>mark_task_complete\<close> call:
  the value under \<open>completion_message\<close>, else the one under \<open>task_summary\<close>, of the
  parsed arguments. The bare \<open>except: pass\<close> swallows a failed parse and the
  \<open>TypeError\<close> of \<open>in\<close> or of the subscript on arguments that are not a dict, so
  only a dict appends anything.
\<close>

definition completion_text :: "pylib \<Rightarrow> tool_call \<Rightarrow> json option" where
  "completion_text L tc =
     (case loads L (call_arguments tc) of
        Inr (JObj kvs) \<Rightarrow>
          (case map_of kvs ''completion_message'' of
             Some v \<Rightarrow> Some v
           | None \<Rightarrow> map_of kvs ''task_summary'')
      | _ \<Rightarrow> None)"

definition append_completion :: "pylib \<Rightarrow> tool_call \<Rightarrow> json list \<Rightarrow> json list" where
  "append_completion L tc full =
     (case completion_text L tc of None \<Rightarrow> full | Some v \<Rightarrow> full @ [v])"

text \<open>Lines 191 to 204: the content of the assistant turn, captured for the answer.\<close>

definition capture_content :: "pylib \<Rightarrow> assistant_message \<Rightarrow> json list \<Rightarrow> json list" where
  "capture_content L am full =
     (case content am of
        Some (c # cs) \<Rightarrow> full @ [JStr (c # cs)]
      | _ \<Rightarrow>
          fold (\<lambda>tc acc. if call_name tc = ''mark_task_complete'' then append_completion L tc acc
                          else acc)
               (tool_calls am) full)"

text \<open>
  Lines 212 to 233: the tool calls of one turn, in order. The first component is the
  value returned from inside the loop, if a \<open>mark_task_complete\<close> call was reached.
\<close>

fun handle_tool_calls ::
  "pylib \<Rightarrow> agent \<Rightarrow> tool_call list \<Rightarrow> message list \<Rightarrow> json list \<Rightarrow>
   (exn + string) option \<times> message list \<times> json list" where
  "handle_tool_calls L a [] msgs full = (None, msgs, full)"
| "handle_tool_calls L a (tc # tcs) msgs full =
     (let msgs' = msgs @ [handle_tool_call L a tc]
      in if call_name tc = ''mark_task_complete'' then
           (let full' = append_completion L tc full
            in (Some (join_content full'), msgs', full'))
         else handle_tool_calls L a tcs msgs' full)"

text \<open>
  The state of the \<open>while\<close> loop of \<open>run\<close>. \<open>requests\<close> is not in the source: it
  records each request handed to the client, in order.
\<close>

record run_state =
  messages :: "message list"
  full_response_content :: "json list"
  iteration :: int
  requests :: "api_params list"

definition stuck_message :: string where
  "stuck_message = ''Maximum iterations reached. The agent may be stuck in a loop.''"

function run_loop ::
  "pylib \<Rightarrow> agent \<Rightarrow> int \<Rightarrow> run_state \<Rightarrow> (exn + string) \<times> run_state" where
  "run_loop L a max_it s =
     (if iteration s < max_it then
        (let s1 = s \<lparr> iteration := iteration s + 1,
                       requests := requests s @ [build_api_params a (messages s)] \<rparr>
         in case (case call_llm a (messages s) of
                    Inl e \<Rightarrow> Inl e
                  | Inr r \<Rightarrow> first_choice r) of
              Inl e \<Rightarrow> (Inl e, s1)
            | Inr am \<Rightarrow>
                (let msgs = messages s @ [AssistantMsg (content am) (tool_calls am)];
                     full = capture_content L am (full_response_content s)
                 in if tool_calls am \<noteq> [] then
                      (case handle_tool_calls L a (tool_calls am) msgs full of
                         (Some r, msgs', full') \<Rightarrow>
                           (r, s1 \<lparr> messages := msgs', full_response_content := full' \<rparr>)
                       | (None, msgs', full') \<Rightarrow>
                           run_loop L a max_it
                             (s1 \<lparr> messages := msgs', full_response_content := full' \<rparr>))
                    else run_loop L a max_it
                           (s1 \<lparr> messages := msgs, full_response_content := full \<rparr>)))
      else
        (if full_response_content s \<noteq> [] then join_content (full_response_content s)
         else Inr stuck_message, s))"
  by pat_completeness auto
termination
  by (relation "measure (\<lambda>(L, a, max_it, s). nat (max_it - iteration s))") auto

text \<open>\<open>agent_config.get('max_iterations', 10)\<close>.\<close>

definition iteration_cap :: "agent \<Rightarrow> int" where
  "iteration_cap a = (case max_iterations a of None \<Rightarrow> 10 | Some n \<Rightarrow> n)"

text \<open>\<open>run\<close>: the answer (or the exception) and the final state of the loop.\<close>

definition run :: "pylib \<Rightarrow> agent \<Rightarrow> json \<Rightarrow> (exn + string) \<times> run_state" where
  "run L a user_input =
     run_loop L a (iteration_cap a)
       \<lparr> messages = [SystemMsg (system_prompt a), UserMsg user_input],
         full_response_content = [],
         iteration = 0,
         requests = [] \<rparr>"

text \<open>
  How a run can end. A \<open>mark_task_complete\<close> call has been handled when the
  conversation holds a tool message of that name; the run then returns from inside the
  loop. Otherwise the request sent last raised or its response had no first choice,
  or the loop ran to its cap and the answer is the captured content, or the fixed
  message when nothing was captured.
\<close>

definition is_completion_msg :: "message \<Rightarrow> bool" where
  "is_completion_msg m = (case m of ToolMsg i n c \<Rightarrow> n = ''mark_task_complete'' | _ \<Rightarrow> False)"

definition completion_handled :: "message list \<Rightarrow> bool" where
  "completion_handled msgs = list_ex is_completion_msg msgs"





section \<open>orchestrator.py: TaskOrchestrator\<close>

subsection \<open>Configuration and construction\<close>

text \<open>
  The \<open>orchestrator\<close> block of the YAML document: each key is present or not.
\<close>

record orchestrator_block =
  parallel_agents :: "int option"
  task_timeout :: "real option"
  aggregation_strategy :: "string option"
  question_generation_prompt :: "string option"
  synthesis_prompt :: "string option"
  budget_limit :: "real option"

text \<open>
  What \<open>yaml.safe_load\<close> gives for the configuration file, as far as the orchestrator
  reads it: the \<open>orchestrator\<close> block and \<open>provider.type\<close>.
\<close>

record config =
  orchestrator :: "orchestrator_block option"
  provider_type_key :: "string option"

text \<open>\<open>AgentModelConfig\<close> of model_config/data_models.py.\<close>

record agent_model_config =
  agent_0_model :: string
  agent_1_model :: string
  agent_2_model :: string
  agent_3_model :: string
  synthesis_model :: string
  default_model :: string

definition amc_get_agent_model :: "agent_model_config \<Rightarrow> int \<Rightarrow> string" where
  "amc_get_agent_model c agent_id =
     (if agent_id = 0 then agent_0_model c
      else if agent_id = 1 then agent_1_model c
      else if agent_id = 2 then agent_2_model c
      else if agent_id = 3 then agent_3_model c
      else default_model c)"

text \<open>The fields of a \<open>TaskOrchestrator\<close> that its methods read.\<close>

record task_orchestrator =
  self_config :: config
  num_agents :: int
  self_task_timeout :: real
  self_aggregation_strategy :: string
  silent :: bool
  multi_model_config :: "agent_model_config option"
  self_budget_limit :: "real option"

text \<open>
  The collaborators of \<open>__init__\<close>: \<open>ConfigurationManager.load_config\<close> and the
  constructor of \<open>ModelConfigurationManager\<close> raise or not, and
  \<open>load_agent_configuration\<close> raises or gives the multi-model configuration, if any.
\<close>

record init_env =
  load_config :: "exn option"
  model_configuration_manager :: "exn option"
  load_agent_configuration :: "exn + agent_model_config option"

definition key_error :: "string \<Rightarrow> exn" where
  "key_error k = (KeyError, [CHR 0x27] @ k @ [CHR 0x27])"

text \<open>\<open>d[k]\<close> on a key that is present or not.\<close>

definition subscript :: "'a option \<Rightarrow> string \<Rightarrow> exn + 'a" where
  "subscript v k = (case v of None \<Rightarrow> Inl (key_error k) | Some x \<Rightarrow> Inr x)"

definition TaskOrchestrator_init :: "init_env \<Rightarrow> config \<Rightarrow> bool \<Rightarrow> exn + task_orchestrator" where
  "TaskOrchestrator_init I cfg silent_flag =
     (case subscript (orchestrator cfg) ''orchestrator'' of Inl e \<Rightarrow> Inl e | Inr blk \<Rightarrow>
      case subscript (parallel_agents blk) ''parallel_agents'' of Inl e \<Rightarrow> Inl e | Inr n \<Rightarrow>
      case subscript (task_timeout blk) ''task_timeout'' of Inl e \<Rightarrow> Inl e | Inr t \<Rightarrow>
      case subscript (aggregation_strategy blk) ''aggregation_strategy'' of Inl e \<Rightarrow> Inl e | Inr strat \<Rightarrow>
      case load_config I of Some e \<Rightarrow> Inl e | None \<Rightarrow>
      case model_configuration_manager I of Some e \<Rightarrow> Inl e | None \<Rightarrow>
        Inr \<lparr> self_config = cfg,
              num_agents = n,
              self_task_timeout = t,
              self_aggregation_strategy = strat,
              silent = silent_flag,
              multi_model_config =
                (case load_agent_configuration I of Inl e \<Rightarrow> None | Inr m \<Rightarrow> m),
              self_budget_limit = budget_limit blk \<rparr>)"

subsection \<open>The environment of a run\<close>

text \<open>
  Where an agent is constructed: by \<open>decompose_task\<close>, by
  \<open>_create_agent_with_model\<close> for agent \<open>i\<close> (\<open>-1\<close> is the synthesis agent), by the
  fallback of \<open>_create_agent_with_model\<close>, and by the fallback of
  \<open>_aggregate_consensus\<close>.
\<close>

datatype site = QuestionAgent | CreateAgent int | CreateFallback int | SynthesisFallback

record provider_config =
  pc_provider_type :: string
  pc_model :: string

record model_info =
  mi_id :: string
  input_cost_per_1m :: "real option"
  output_cost_per_1m :: "real option"

text \<open>
  Everything outside the orchestrator that a run consults. \<open>new_agent\<close> is
  \<open>UniversalAgent(config_path, silent=True)\<close> at a site: it raises or gives an agent,
  whose client is the provider's behaviour for that agent. \<open>get_provider_config\<close> is
  the method of the configuration manager, \<open>reread_config\<close> the second
  \<open>yaml.safe_load\<close> of the file in \<open>_aggregate_consensus\<close>,
  \<open>get_available_models\<close> the method of the model configuration manager,
  \<open>record_agent_cost\<close> the cost monitor's method (\<open>None\<close>: no monitor, or no
  exception), \<open>elapsed\<close> the wall-clock time of an agent's run.
\<close>

record env =
  lib :: pylib
  new_agent :: "site \<Rightarrow> exn + agent"
  get_provider_config :: "exn + provider_config"
  reread_config :: "exn + config"
  get_available_models :: "exn + model_info list"
  record_agent_cost :: "exn option"
  elapsed :: "int \<Rightarrow> real"

definition get_agent_model :: "task_orchestrator \<Rightarrow> env \<Rightarrow> int \<Rightarrow> string" where
  "get_agent_model self E agent_id =
     (let dflt = (case get_provider_config E of Inr pc \<Rightarrow> pc_model pc | Inl e \<Rightarrow> ''deepseek-chat'')
      in case multi_model_config self of
           None \<Rightarrow> dflt
         | Some mm \<Rightarrow> (if amc_get_agent_model mm agent_id \<noteq> [] then amc_get_agent_model mm agent_id
                       else dflt))"

definition get_synthesis_model :: "task_orchestrator \<Rightarrow> env \<Rightarrow> string" where
  "get_synthesis_model self E =
     (case multi_model_config self of
        Some mm \<Rightarrow> synthesis_model mm
      | None \<Rightarrow> (case get_provider_config E of Inr pc \<Rightarrow> pc_model pc | Inl e \<Rightarrow> ''deepseek-chat''))"

text \<open>
  \<open>_create_agent_with_model\<close>: the first attempt sets the agent's model; any exception
  there leads to a second construction, whose exception propagates.
\<close>

definition create_agent_with_model :: "env \<Rightarrow> int \<Rightarrow> string \<Rightarrow> exn + agent" where
  "create_agent_with_model E agent_id m =
     (case (case get_provider_config E of
              Inl e \<Rightarrow> Inl e
            | Inr pc \<Rightarrow> new_agent E (CreateAgent agent_id)) of
        Inr a \<Rightarrow> Inr (a \<lparr> model := m \<rparr>)
      | Inl e \<Rightarrow> new_agent E (CreateFallback agent_id))"

text \<open>The two list comprehensions that remove the completion tool from an agent.\<close>

definition strip_completion_tool :: "agent \<Rightarrow> agent" where
  "strip_completion_tool a =
     a \<lparr> tools := filter (\<lambda>t. function_name t \<noteq> Some ''mark_task_complete'') (tools a),
         tool_mapping := filter (\<lambda>(name, f). name \<noteq> ''mark_task_complete'') (tool_mapping a) \<rparr>"

subsection \<open>Decomposition\<close>

text \<open>\<open>len(v)\<close>, \<open>v[i]\<close> for \<open>i \<ge> 0\<close> and \<open>xs[:n]\<close> as Python defines them.\<close>

definition py_len :: "json \<Rightarrow> exn + nat" where
  "py_len v =
     (case v of
        JStr s \<Rightarrow> Inr (length s)
      | JArr xs \<Rightarrow> Inr (length xs)
      | JObj kvs \<Rightarrow> Inr (length (remdups (map fst kvs)))
      | _ \<Rightarrow> Inl (TypeError, ''object has no len()''))"

definition py_index :: "json \<Rightarrow> nat \<Rightarrow> exn + json" where
  "py_index v i =
     (case v of
        JArr xs \<Rightarrow> (if i < length xs then Inr (xs ! i)
                    else Inl (IndexError, ''list index out of range''))
      | JStr s \<Rightarrow> (if i < length s then Inr (JStr [s ! i])
                   else Inl (IndexError, ''string index out of range''))
      | JObj kvs \<Rightarrow> Inl (KeyError, str_nat i)
      | _ \<Rightarrow> Inl (TypeError, ''object is not subscriptable''))"

definition py_take :: "int \<Rightarrow> 'a list \<Rightarrow> 'a list" where
  "py_take n xs = (if n < 0 then take (length xs - nat (- n)) xs else take (nat n) xs)"

definition is_space :: "char \<Rightarrow> bool" where
  "is_space c = (let n = (of_char c :: nat) in (9 \<le> n \<and> n \<le> 13) \<or> (28 \<le> n \<and> n \<le> 32))"

definition strip :: "string \<Rightarrow> string" where
  "strip s = rev (dropWhile is_space (rev (dropWhile is_space s)))"

definition fallback_questions :: "string \<Rightarrow> string list" where
  "fallback_questions user_input =
     [''Research comprehensive information about: '' @ user_input,
      ''Analyze and provide insights about: '' @ user_input,
      ''Find alternative perspectives on: '' @ user_input,
      ''Verify and cross-check facts about: '' @ user_input]"

text \<open>The body of the \<open>try\<close> of \<open>decompose_task\<close>.\<close>

definition generate_questions :: "env \<Rightarrow> agent \<Rightarrow> string \<Rightarrow> int \<Rightarrow> exn + json" where
  "generate_questions E question_agent generation_prompt n =
     (case fst (run (lib E) question_agent (JStr generation_prompt)) of
        Inl e \<Rightarrow> Inl e
      | Inr response \<Rightarrow>
          (case loads (lib E) (strip response) of
             Inl e \<Rightarrow> Inl e
           | Inr questions \<Rightarrow>
               (case py_len questions of
                  Inl e \<Rightarrow> Inl e
                | Inr k \<Rightarrow>
                    if int k \<noteq> n then
                      Inl (ValueError,
                           ''Expected '' @ str_int n @ '' questions, got '' @ str_nat k)
                    else Inr questions)))"

definition decompose_task :: "task_orchestrator \<Rightarrow> env \<Rightarrow> string \<Rightarrow> int \<Rightarrow> exn + json" where
  "decompose_task self E user_input n =
     (case new_agent E QuestionAgent of Inl e \<Rightarrow> Inl e | Inr question_agent \<Rightarrow>
      case subscript (orchestrator (self_config self)) ''orchestrator'' of Inl e \<Rightarrow> Inl e | Inr blk \<Rightarrow>
      case subscript (question_generation_prompt blk) ''question_generation_prompt'' of
        Inl e \<Rightarrow> Inl e | Inr prompt_template \<Rightarrow>
      case format (lib E) prompt_template
             [(''user_input'', user_input), (''num_agents'', str_int n)] of
        Inl e \<Rightarrow> Inl e | Inr generation_prompt \<Rightarrow>
      case generate_questions E (strip_completion_tool question_agent) generation_prompt n of
        Inr questions \<Rightarrow> Inr questions
      | Inl e \<Rightarrow>
          if is_ValueError e then
            Inr (JArr (map JStr (py_take n (fallback_questions user_input))))
          else Inl e)"

subsection \<open>One worker\<close>

text \<open>
  A worker result is the dict that \<open>run_agent_parallel\<close> and the collection loop of
  \<open>orchestrate\<close> build; the keys \<open>model\<close> and \<open>estimated_cost\<close> are absent from
  the record of the collection loop.
\<close>

record worker_result =
  agent_id :: int
  status :: string
  response :: string
  execution_time :: real
  result_model :: "string option"
  estimated_cost :: "real option"

text \<open>
  \<open>_estimate_agent_cost\<close>: it never raises. Floats are reals here. The bookkeeping in
  \<open>agent_costs\<close> has no effect on any value returned.
\<close>

definition estimate_agent_cost :: "env \<Rightarrow> string \<Rightarrow> nat \<Rightarrow> nat \<Rightarrow> real" where
  "estimate_agent_cost E m input_length output_length =
     (case get_available_models E of
        Inl e \<Rightarrow> 0
      | Inr available_models \<Rightarrow>
          (case find (\<lambda>mi. mi_id mi = m) available_models of
             None \<Rightarrow> 0
           | Some mi \<Rightarrow>
               (case (input_cost_per_1m mi, output_cost_per_1m mi) of
                  (Some ic, Some oc) \<Rightarrow>
                    if ic = 0 \<or> oc = 0 then 0
                    else
                      (let input_tokens = input_length div 4;
                           output_tokens = output_length div 4;
                           total_cost = real input_tokens / 1000000 * ic
                                        + real output_tokens / 1000000 * oc
                       in case record_agent_cost E of Some e \<Rightarrow> 0 | None \<Rightarrow> total_cost)
                | _ \<Rightarrow> 0)))"

text \<open>\<open>subtask[:50]\<close> is evaluated for the progress line when the orchestrator is not silent.\<close>

definition sliceable :: "json \<Rightarrow> bool" where
  "sliceable v = (case v of JStr s \<Rightarrow> True | JArr xs \<Rightarrow> True | _ \<Rightarrow> False)"

text \<open>
  The \<open>try\<close> block of \<open>run_agent_parallel\<close>, with the value of \<open>agent_model\<close> when
  the block is left.
\<close>

definition run_agent_try ::
  "task_orchestrator \<Rightarrow> env \<Rightarrow> int \<Rightarrow> json \<Rightarrow> string option \<times> (exn + worker_result)" where
  "run_agent_try self E aid subtask =
     (if \<not> silent self \<and> \<not> sliceable subtask then
        (None, Inl (TypeError, ''object is not subscriptable''))
      else
        (let agent_model = get_agent_model self E aid
         in case create_agent_with_model E aid agent_model of
              Inl e \<Rightarrow> (Some agent_model, Inl e)
            | Inr a \<Rightarrow>
                (case fst (run (lib E) a subtask) of
                   Inl e \<Rightarrow> (Some agent_model, Inl e)
                 | Inr resp \<Rightarrow>
                     (case py_len subtask of
                        Inl e \<Rightarrow> (Some agent_model, Inl e)
                      | Inr k \<Rightarrow>
                          (Some agent_model,
                           Inr \<lparr> agent_id = aid,
                                 status = ''success'',
                                 response = resp,
                                 execution_time = elapsed E aid,
                                 result_model = Some agent_model,
                                 estimated_cost =
                                   Some (estimate_agent_cost E agent_model k (length resp)) \<rparr>)))))"

definition error_msg :: "int \<Rightarrow> string option \<Rightarrow> exn \<Rightarrow> string" where
  "error_msg aid agent_model e =
     ''Agent '' @ str_int aid @ '' error'' @
     (case agent_model of
        Some (c # cs) \<Rightarrow> '' (model: '' @ (c # cs) @ '')''
      | _ \<Rightarrow> []) @
     '': '' @ snd e"

definition run_agent_parallel ::
  "task_orchestrator \<Rightarrow> env \<Rightarrow> int \<Rightarrow> json \<Rightarrow> exn + worker_result" where
  "run_agent_parallel self E aid subtask =
     (case run_agent_try self E aid subtask of
        (agent_model, Inr r) \<Rightarrow> Inr r
      | (agent_model, Inl e) \<Rightarrow>
          Inr \<lparr> agent_id = aid,
                status = ''error'',
                response = error_msg aid agent_model e,
                execution_time = 0,
                result_model =
                  Some (case agent_model of Some (c # cs) \<Rightarrow> c # cs | _ \<Rightarrow> ''unknown''),
                estimated_cost = Some 0 \<rparr>)"

subsection \<open>Aggregation\<close>

definition all_failed_message :: string where
  "all_failed_message = ''All agents failed to provide results. Please try again.''"

definition agent_responses_text :: "string list \<Rightarrow> string" where
  "agent_responses_text responses =
     concat (map (\<lambda>(i, r). ''=== AGENT '' @ str_nat i @ '' RESPONSE ==='' @ nl @ r @ nl @ nl)
                 (enumerate 1 responses))"

text \<open>The \<open>except\<close> branch of the synthesis: the responses under numbered headers.\<close>

definition concatenated_responses :: "string list \<Rightarrow> string" where
  "concatenated_responses responses =
     join nl (concat (map (\<lambda>(i, r). [''=== Agent '' @ str_nat i @ '' Response ==='', r, []])
                          (enumerate 1 responses)))"

text \<open>
  \<open>_aggregate_consensus\<close> up to the final \<open>try\<close>: the synthesis agent and its
  prompt. An exception here is not caught.
\<close>

definition prepare_synthesis ::
  "task_orchestrator \<Rightarrow> env \<Rightarrow> string list \<Rightarrow> exn + agent \<times> string" where
  "prepare_synthesis self E responses =
     (case (case create_agent_with_model E (- 1) (get_synthesis_model self E) of
              Inr a \<Rightarrow> Inr a
            | Inl e \<Rightarrow> new_agent E SynthesisFallback) of
        Inl e \<Rightarrow> Inl e | Inr synthesis_agent \<Rightarrow>
      case subscript (orchestrator (self_config self)) ''orchestrator'' of Inl e \<Rightarrow> Inl e | Inr blk \<Rightarrow>
      case subscript (synthesis_prompt blk) ''synthesis_prompt'' of Inl e \<Rightarrow> Inl e | Inr template \<Rightarrow>
      case format (lib E) template
             [(''num_responses'', str_nat (length responses)),
              (''agent_responses'', agent_responses_text responses)] of
        Inl e \<Rightarrow> Inl e | Inr prompt \<Rightarrow>
        (let a = strip_completion_tool synthesis_agent
         in if tools a = [] then
              (case reread_config E of
                 Inl e \<Rightarrow> Inl e
               | Inr cfg \<Rightarrow>
                   if (case provider_type_key cfg of None \<Rightarrow> [] | Some t \<Rightarrow> t) = ''deepseek''
                   then Inr (a \<lparr> tools := [dummy_tool] \<rparr>, prompt)
                   else Inr (a, prompt))
            else Inr (a, prompt)))"

text \<open>
  Aggregation gives its result and the requests it sent to a provider, in order.
\<close>

definition aggregate_consensus ::
  "task_orchestrator \<Rightarrow> env \<Rightarrow> string list \<Rightarrow> worker_result list \<Rightarrow>
   (exn + string) \<times> api_params list" where
  "aggregate_consensus self E responses results =
     (case responses of
        [r] \<Rightarrow> (Inr r, [])
      | _ \<Rightarrow>
          (case prepare_synthesis self E responses of
             Inl e \<Rightarrow> (Inl e, [])
           | Inr (synthesis_agent, prompt) \<Rightarrow>
               (case run (lib E) synthesis_agent (JStr prompt) of
                  (Inr final_answer, st) \<Rightarrow> (Inr final_answer, requests st)
                | (Inl e, st) \<Rightarrow> (Inr (concatenated_responses responses), requests st))))"

definition aggregate_results ::
  "task_orchestrator \<Rightarrow> env \<Rightarrow> worker_result list \<Rightarrow> (exn + string) \<times> api_params list" where
  "aggregate_results self E agent_results =
     (let successful_results = filter (\<lambda>r. status r = ''success'') agent_results
      in if successful_results = [] then (Inr all_failed_message, [])
         else
           (let responses = map response successful_results
            in if self_aggregation_strategy self = ''consensus'' then
                 aggregate_consensus self E responses successful_results
               else aggregate_consensus self E responses successful_results))"

subsection \<open>The batch\<close>

text \<open>
  The dict comprehension that submits the workers evaluates \<open>subtasks[i]\<close> for
  \<open>i = 0, 1, ...\<close> in the calling thread; each future holds what
  \<open>run_agent_parallel\<close> returns or raises.
\<close>

fun submit_all ::
  "task_orchestrator \<Rightarrow> env \<Rightarrow> json \<Rightarrow> nat list \<Rightarrow> exn + (nat \<times> (exn + worker_result)) list" where
  "submit_all self E subtasks [] = Inr []"
| "submit_all self E subtasks (i # rest) =
     (case py_index subtasks i of
        Inl e \<Rightarrow> Inl e
      | Inr subtask \<Rightarrow>
          (case submit_all self E subtasks rest of
             Inl e \<Rightarrow> Inl e
           | Inr futures \<Rightarrow> Inr ((i, run_agent_parallel self E (int i) subtask) # futures)))"

text \<open>The body of the collection loop for one future that \<open>as_completed\<close> yields.\<close>

definition collect_one :: "task_orchestrator \<Rightarrow> nat \<Rightarrow> exn + worker_result \<Rightarrow> worker_result" where
  "collect_one self i fut =
     (case fut of
        Inr result \<Rightarrow> result
      | Inl e \<Rightarrow>
          \<lparr> agent_id = int i,
            status = ''timeout'',
            response = ''Agent '' @ str_int (int i + 1) @ '' timed out or failed: '' @ snd e,
            execution_time = self_task_timeout self,
            result_model = None,
            estimated_cost = None \<rparr>)"

text \<open>
  \<open>concurrent.futures.as_completed(fs, timeout)\<close> yields each future when it
  completes and raises \<open>TimeoutError\<close> from the iterator, that is in the header of the
  \<open>for\<close> statement, when futures are still pending after \<open>timeout\<close> seconds.
  \<open>finished\<close> lists the workers that complete in time, in the order they complete.
  The \<open>with\<close> block then waits for the pending workers before the exception leaves it.
\<close>

definition collect_results ::
  "task_orchestrator \<Rightarrow> nat list \<Rightarrow> (nat \<times> (exn + worker_result)) list \<Rightarrow> exn + worker_result list" where
  "collect_results self finished futures =
     (let yielded = filter (\<lambda>i. i \<in> fst ` set futures) (remdups finished);
          agent_results = map (\<lambda>i. collect_one self i (the (map_of futures i))) yielded;
          pending = filter (\<lambda>(i, fut). i \<notin> set finished) futures
      in if pending = [] then Inr agent_results
         else Inl (TimeoutError,
                   str_nat (length pending) @ '' (of '' @ str_nat (length futures)
                   @ '') futures unfinished''))"

text \<open>
  \<open>log_execution_summary\<close> prints only. With a cost monitor, which exists when the
  block has a \<open>budget_limit\<close>, it formats \<open>budget_remaining\<close> with \<open>:.6f\<close>, and
  that value is \<open>None\<close> when the limit is zero.
\<close>

definition log_execution_summary :: "task_orchestrator \<Rightarrow> exn option" where
  "log_execution_summary self =
     (if silent self then None
      else case self_budget_limit self of
             None \<Rightarrow> None
           | Some b \<Rightarrow>
               if b = 0 then
                 Some (TypeError, ''unsupported format string passed to NoneType.__format__'')
               else None)"

text \<open>
  \<open>orchestrate\<close>. The \<open>try\<close> has a \<open>finally\<close> and no \<open>except\<close>: an exception of
  any step leaves the method. \<open>ThreadPoolExecutor\<close> rejects \<open>max_workers \<le> 0\<close>.
  Starting and stopping the cost monitor does not change the result.
\<close>

definition orchestrate :: "task_orchestrator \<Rightarrow> env \<Rightarrow> nat list \<Rightarrow> string \<Rightarrow> exn + string" where
  "orchestrate self E finished user_input =
     (case decompose_task self E user_input (num_agents self) of
        Inl e \<Rightarrow> Inl e | Inr subtasks \<Rightarrow>
      if num_agents self \<le> 0 then Inl (ValueError, ''max_workers must be greater than 0'')
      else
      case submit_all self E subtasks [0..<nat (num_agents self)] of
        Inl e \<Rightarrow> Inl e | Inr futures \<Rightarrow>
      case collect_results self finished futures of
        Inl e \<Rightarrow> Inl e | Inr agent_results \<Rightarrow>
      case fst (aggregate_results self E (sort_key agent_id agent_results)) of
        Inl e \<Rightarrow> Inl e | Inr final_result \<Rightarrow>
      case log_execution_summary self of
        Some e \<Rightarrow> Inl e | None \<Rightarrow> Inr final_result)"

section \<open>Example configurations\<close>

text \<open>
  A library whose \<open>loads\<close> parses one array and rejects text that is not JSON, as
  \<open>json.loads\<close> does on these inputs, and whose \<open>format\<close> leaves a template
  without braces unchanged, as \<open>str.format\<close> does.
\<close>

definition example_loads :: "string \<Rightarrow> exn + json" where
  \<open>example_loads s =
     (if s = ''["a", "b"]'' then Inr (JArr [JStr ''a'', JStr ''b''])
      else Inl (JSONDecodeError, ''Expecting value''))\<close>

definition example_lib :: pylib where
  "example_lib = \<lparr> loads = example_loads, format = (\<lambda>template kwargs. Inr template) \<rparr>"

definition completion_schema :: tool_schema where
  "completion_schema =
     \<lparr> schema_type = ''function'',
       function_name = Some ''mark_task_complete'',
       function_description = ''Mark the task as complete'',
       function_parameters = JObj [] \<rparr>"

text \<open>A provider that answers every request with the same text, and one that is down.\<close>

definition says :: "string \<Rightarrow> api_params \<Rightarrow> exn + chat_completion" where
  "says text p = Inr \<lparr> choices = Some [\<lparr> content = Some text, tool_calls = [] \<rparr>] \<rparr>"

definition fails :: "string \<Rightarrow> api_params \<Rightarrow> exn + chat_completion" where
  "fails msg p = Inl (OtherException, msg)"

definition example_agent :: "(api_params \<Rightarrow> exn + chat_completion) \<Rightarrow> agent" where
  "example_agent c =
     \<lparr> provider_type = ''deepseek'',
       model = ''deepseek-chat'',
       tools = [completion_schema],
       tool_mapping = [(''mark_task_complete'', (\<lambda>args. Inr ''{}''))],
       client = c,
       system_prompt = ''You are a helpful assistant.'',
       max_iterations = Some 2 \<rparr>"

definition example_block :: orchestrator_block where
  "example_block =
     \<lparr> parallel_agents = Some 2,
       task_timeout = Some 300,
       aggregation_strategy = Some ''consensus'',
       question_generation_prompt = Some ''Generate the questions as a JSON array.'',
       synthesis_prompt = Some ''Synthesize the responses.'',
       budget_limit = None \<rparr>"

definition example_config :: config where
  "example_config = \<lparr> orchestrator = Some example_block, provider_type_key = Some ''deepseek'' \<rparr>"

definition example_orchestrator :: "int \<Rightarrow> task_orchestrator" where
  "example_orchestrator n =
     \<lparr> self_config = example_config,
       num_agents = n,
       self_task_timeout = 300,
       self_aggregation_strategy = ''consensus'',
       silent = True,
       multi_model_config = None,
       self_budget_limit = None \<rparr>"

definition example_env :: "(site \<Rightarrow> exn + agent) \<Rightarrow> env" where
  "example_env mk =
     \<lparr> lib = example_lib,
       new_agent = mk,
       get_provider_config = Inr \<lparr> pc_provider_type = ''deepseek'', pc_model = ''deepseek-chat'' \<rparr>,
       reread_config = Inr example_config,
       get_available_models = Inr [],
       record_agent_cost = None,
       elapsed = (\<lambda>i. 1) \<rparr>"

text \<open>Every agent talks to the same provider behaviour \<open>c\<close>.\<close>

definition all_agents :: "(api_params \<Rightarrow> exn + chat_completion) \<Rightarrow> site \<Rightarrow> exn + agent" where
  "all_agents c st = Inr (example_agent c)"

text \<open>The workers answer; the provider is down for the synthesis agent.\<close>

definition synthesis_down :: "site \<Rightarrow> exn + agent" where
  "synthesis_down st =
     (if st = CreateAgent (- 1) then Inr (example_agent (fails ''Synthesis failed''))
      else Inr (example_agent (says ''Answer'')))"

definition example_result :: "int \<Rightarrow> string \<Rightarrow> string \<Rightarrow> worker_result" where
  "example_result i st text =
     \<lparr> agent_id = i, status = st, response = text, execution_time = 1,
       result_model = Some ''deepseek-chat'', estimated_cost = Some 0 \<rparr>"

section \<open>Properties\<close>

declare run_loop.simps [simp del]

lemmas example_defs = example_loads_def example_lib_def completion_schema_def example_agent_def
  says_def fails_def example_block_def example_config_def example_orchestrator_def example_env_def
  all_agents_def synthesis_down_def example_result_def

lemmas agent_defs = run_def iteration_cap_def run_loop.simps call_llm_def build_api_params_def
  capture_content_def join_content_def handle_tool_call_def append_completion_def
  completion_text_def first_choice_def wrap_error_def lower_def lower_char_def nl_def stuck_message_def Let_def

lemmas worker_defs = run_agent_parallel_def run_agent_try_def create_agent_with_model_def
  get_agent_model_def sliceable_def py_len_def estimate_agent_cost_def error_msg_def
  str_int_def

lemmas aggregation_defs = prepare_synthesis_def get_synthesis_model_def create_agent_with_model_def
  strip_completion_tool_def subscript_def agent_responses_text_def

lemmas decompose_defs = decompose_task_def generate_questions_def strip_completion_tool_def
  subscript_def py_len_def py_take_def fallback_questions_def strip_def is_space_def str_int_def

lemmas batch_defs = orchestrate_def collect_results_def collect_one_def py_index_def
  aggregate_results_def aggregate_consensus_def all_failed_message_def
  log_execution_summary_def

subsection \<open>The tool-calling loop\<close>

lemma is_completion_handle [simp]:
  "is_completion_msg (handle_tool_call L a tc) = (call_name tc = ''mark_task_complete'')"
  by (simp add: is_completion_msg_def handle_tool_call_def)

lemma completion_handled_append [simp]:
  "completion_handled (xs @ ys) = (completion_handled xs \<or> completion_handled ys)"
  by (simp add: completion_handled_def)

lemma completion_handled_simps [simp]:
  "completion_handled [] = False"
  "completion_handled (m # ms) = (is_completion_msg m \<or> completion_handled ms)"
  by (simp_all add: completion_handled_def)

lemma is_completion_simps [simp]:
  "is_completion_msg (AssistantMsg c t) = False"
  "is_completion_msg (SystemMsg x) = False"
  "is_completion_msg (UserMsg u) = False"
  by (simp_all add: is_completion_msg_def)




lemma as_strs_append [simp]:
  "as_strs (xs @ ys) =
     (case as_strs xs of None \<Rightarrow> None
      | Some a \<Rightarrow> (case as_strs ys of None \<Rightarrow> None | Some b \<Rightarrow> Some (a @ b)))"
  by (induction xs rule: as_strs.induct) (auto split: option.splits)














subsection \<open>One worker\<close>

text \<open>
  C7. \<open>run_agent_parallel\<close> always returns a record and never raises, whatever the
  sub-question and whatever agent creation, the provider and the tools do. When the
  \<open>try\<close> block raises \<open>e\<close>, the record has status \<open>error\<close>, a response that ends
  with the message of \<open>e\<close>, execution time 0 and estimated cost 0.0; a failed agent
  creation and a raising run are such cases. Otherwise the record has status
  \<open>success\<close> and its response is the text that the agent's run returned.
\<close>

theorem run_agent_parallel_never_raises:
  "\<exists>r. run_agent_parallel self E aid subtask = Inr r \<and> agent_id r = aid
     \<and> (case snd (run_agent_try self E aid subtask) of
          Inl e \<Rightarrow>
            status r = ''error''
            \<and> response r = error_msg aid (fst (run_agent_try self E aid subtask)) e
            \<and> (\<exists>pre. response r = pre @ '': '' @ snd e)
            \<and> execution_time r = 0 \<and> estimated_cost r = Some 0
        | Inr ok \<Rightarrow>
            r = ok \<and> status r = ''success''
            \<and> (\<exists>a. create_agent_with_model E aid (get_agent_model self E aid) = Inr a
                   \<and> fst (run (lib E) a subtask) = Inr (response r)))
     \<and> (\<forall>e. create_agent_with_model E aid (get_agent_model self E aid) = Inl e
            \<longrightarrow> status r = ''error'')
     \<and> (\<forall>a e. create_agent_with_model E aid (get_agent_model self E aid) = Inr a
              \<and> fst (run (lib E) a subtask) = Inl e
            \<longrightarrow> status r = ''error'')"
proof (cases "snd (run_agent_try self E aid subtask)")
  case (Inl e)
  then obtain m where t: "run_agent_try self E aid subtask = (m, Inl e)"
    by (cases "run_agent_try self E aid subtask") auto
  then show ?thesis
    by (auto simp: run_agent_parallel_def error_msg_def)
next
  case (Inr ok)
  then obtain m where t: "run_agent_try self E aid subtask = (m, Inr ok)"
    by (cases "run_agent_try self E aid subtask") auto
  from t have ok: "agent_id ok = aid \<and> status ok = ''success''
      \<and> (\<exists>a. create_agent_with_model E aid (get_agent_model self E aid) = Inr a
             \<and> fst (run (lib E) a subtask) = Inr (response ok))"
    by (auto simp: run_agent_try_def Let_def split: if_splits sum.splits)
  from t have no1: "\<forall>e. create_agent_with_model E aid (get_agent_model self E aid) \<noteq> Inl e"
    by (auto simp: run_agent_try_def Let_def split: if_splits sum.splits)
  from t have no2: "\<forall>a e. \<not> (create_agent_with_model E aid (get_agent_model self E aid) = Inr a
              \<and> fst (run (lib E) a subtask) = Inl e)"
    by (auto simp: run_agent_try_def Let_def split: if_splits sum.splits)
  from t ok no1 no2 show ?thesis
    by (simp add: run_agent_parallel_def)
qed

theorem run_agent_parallel_never_raises_witness:
  "run_agent_parallel (example_orchestrator 2)
      (example_env (all_agents (fails ''Connection error.''))) 0 (JStr ''q'')
   = Inr \<lparr> agent_id = 0, status = ''error'',
           response = ''Agent 0 error (model: deepseek-chat): DeepSeek API call failed: Connection error.'',
           execution_time = 0, result_model = Some ''deepseek-chat'', estimated_cost = Some 0 \<rparr>
   \<and> (\<exists>r. run_agent_parallel (example_orchestrator 2)
            (example_env (all_agents (fails ''Connection error.''))) 0 (JStr ''q'') = Inr r
          \<and> status r = ''error'' \<and> execution_time r = 0 \<and> estimated_cost r = Some 0)
   \<and> (\<exists>r. run_agent_parallel (example_orchestrator 2)
            (example_env (all_agents (says ''Answer''))) 1 (JStr ''q'') = Inr r
          \<and> status r = ''success'' \<and> response r = ''Answer'' @ nl @ nl @ ''Answer'')"
proof -
  let ?Ef = "example_env (all_agents (fails ''Connection error.''))"
  let ?Es = "example_env (all_agents (says ''Answer''))"
  have cr: "create_agent_with_model ?Ef 0 (get_agent_model (example_orchestrator 2) ?Ef 0)
              = Inr (example_agent (fails ''Connection error.''))"
    by (simp add: example_defs worker_defs)
  have rn: "fst (run (lib ?Ef) (example_agent (fails ''Connection error.'')) (JStr ''q''))
              = Inl (DeepSeekAPIError, ''DeepSeek API call failed: Connection error.'')"
    by (simp add: example_defs agent_defs)
  have ev: "run_agent_parallel (example_orchestrator 2) ?Ef 0 (JStr ''q'')
      = Inr \<lparr> agent_id = 0, status = ''error'',
           response = ''Agent 0 error (model: deepseek-chat): DeepSeek API call failed: Connection error.'',
           execution_time = 0, result_model = Some ''deepseek-chat'', estimated_cost = Some 0 \<rparr>"
    by (simp add: example_defs agent_defs worker_defs)
  have tr: "snd (run_agent_try (example_orchestrator 2) ?Es 1 (JStr ''q''))
      = Inr \<lparr> agent_id = 1, status = ''success'', response = ''Answer'' @ nl @ nl @ ''Answer'',
           execution_time = 1, result_model = Some ''deepseek-chat'', estimated_cost = Some 0 \<rparr>"
    by (simp add: example_defs agent_defs worker_defs)
  have one: "\<exists>r. run_agent_parallel (example_orchestrator 2) ?Ef 0 (JStr ''q'') = Inr r
          \<and> status r = ''error'' \<and> execution_time r = 0 \<and> estimated_cost r = Some 0"
  proof -
    from run_agent_parallel_never_raises [of "example_orchestrator 2" ?Ef 0 "JStr ''q''"]
    obtain r where r: "run_agent_parallel (example_orchestrator 2) ?Ef 0 (JStr ''q'') = Inr r"
      and imp: "\<forall>a e. create_agent_with_model ?Ef 0 (get_agent_model (example_orchestrator 2) ?Ef 0)
                         = Inr a \<and> fst (run (lib ?Ef) a (JStr ''q'')) = Inl e
                      \<longrightarrow> status r = ''error''"
      by blast
    from imp cr rn have "status r = ''error''" by blast
    moreover from r ev have "execution_time r = 0 \<and> estimated_cost r = Some 0" by auto
    ultimately show ?thesis using r by blast
  qed
  have two: "\<exists>r. run_agent_parallel (example_orchestrator 2) ?Es 1 (JStr ''q'') = Inr r
          \<and> status r = ''success'' \<and> response r = ''Answer'' @ nl @ nl @ ''Answer''"
  proof -
    from run_agent_parallel_never_raises [of "example_orchestrator 2" ?Es 1 "JStr ''q''"]
    obtain r where r: "run_agent_parallel (example_orchestrator 2) ?Es 1 (JStr ''q'') = Inr r"
      and c: "(case snd (run_agent_try (example_orchestrator 2) ?Es 1 (JStr ''q'')) of
          Inl e \<Rightarrow>
            status r = ''error''
            \<and> response r = error_msg 1 (fst (run_agent_try (example_orchestrator 2) ?Es 1 (JStr ''q''))) e
            \<and> (\<exists>pre. response r = pre @ '': '' @ snd e)
            \<and> execution_time r = 0 \<and> estimated_cost r = Some 0
        | Inr ok \<Rightarrow>
            r = ok \<and> status r = ''success''
            \<and> (\<exists>a. create_agent_with_model ?Es 1 (get_agent_model (example_orchestrator 2) ?Es 1) = Inr a
                   \<and> fst (run (lib ?Es) a (JStr ''q'')) = Inr (response r)))"
      by blast
    from c have "status r = ''success'' \<and> response r = ''Answer'' @ nl @ nl @ ''Answer''"
      unfolding tr by simp
    with r show ?thesis by blast
  qed
  from ev one two show ?thesis by blast
qed

subsection \<open>Aggregation\<close>

text \<open>
  C5. With no result of status \<open>success\<close>, \<open>aggregate_results\<close> returns the fixed
  string \<open>All agents failed to provide results. Please try again.\<close>; with exactly
  one, it returns that worker's response unchanged. In both cases it sends no request
  to a provider.
\<close>

theorem aggregate_results_zero_or_one_success:
  "(filter (\<lambda>r. status r = ''success'') rs = [] \<longrightarrow>
      aggregate_results self E rs
        = (Inr ''All agents failed to provide results. Please try again.'', []))
   \<and> (\<forall>r. filter (\<lambda>r. status r = ''success'') rs = [r] \<longrightarrow>
      aggregate_results self E rs = (Inr (response r), []))"
  by (simp add: aggregate_results_def aggregate_consensus_def all_failed_message_def)

theorem aggregate_results_zero_or_one_success_witness:
  "aggregate_results (example_orchestrator 2) (example_env (all_agents (fails ''down'')))
      [example_result 0 ''error'' ''Agent 0 error: down'',
       example_result 1 ''timeout'' ''Agent 2 timed out or failed: late'']
     = (Inr ''All agents failed to provide results. Please try again.'', [])
   \<and> aggregate_results (example_orchestrator 2) (example_env (all_agents (fails ''down'')))
      [example_result 0 ''error'' ''Agent 0 error: down'',
       example_result 1 ''success'' ''Answer 2'']
     = (Inr ''Answer 2'', [])"
proof -
  let ?rs0 = "[example_result 0 ''error'' ''Agent 0 error: down'',
       example_result 1 ''timeout'' ''Agent 2 timed out or failed: late'']"
  let ?rs1 = "[example_result 0 ''error'' ''Agent 0 error: down'',
       example_result 1 ''success'' ''Answer 2'']"
  have f0: "filter (\<lambda>r. status r = ''success'') ?rs0 = []"
    by (simp add: example_result_def)
  have f1: "filter (\<lambda>r. status r = ''success'') ?rs1 = [example_result 1 ''success'' ''Answer 2'']"
    by (simp add: example_result_def)
  have r1: "response (example_result 1 ''success'' ''Answer 2'') = ''Answer 2''"
    by (simp add: example_result_def)
  from aggregate_results_zero_or_one_success
         [of ?rs0 "example_orchestrator 2" "example_env (all_agents (fails ''down''))"] f0
  have a: "aggregate_results (example_orchestrator 2) (example_env (all_agents (fails ''down''))) ?rs0
     = (Inr ''All agents failed to provide results. Please try again.'', [])"
    by blast
  from aggregate_results_zero_or_one_success
         [of ?rs1 "example_orchestrator 2" "example_env (all_agents (fails ''down''))"] f1 r1
  have b: "aggregate_results (example_orchestrator 2) (example_env (all_agents (fails ''down''))) ?rs1
     = (Inr ''Answer 2'', [])"
    by metis
  from a b show ?thesis by (rule conjI)
qed










subsection \<open>Construction\<close>

lemma prepare_synthesis_strategy:
  "prepare_synthesis (self \<lparr> self_aggregation_strategy := s \<rparr>) E responses
     = prepare_synthesis self E responses"
  by (simp add: prepare_synthesis_def get_synthesis_model_def cong: sum.case_cong)

lemma aggregate_consensus_strategy:
  "aggregate_consensus (self \<lparr> self_aggregation_strategy := s \<rparr>) E responses results
     = aggregate_consensus self E responses results"
  by (simp add: aggregate_consensus_def prepare_synthesis_strategy cong: list.case_cong)

text \<open>
  C10. The constructor reads \<open>parallel_agents\<close>, \<open>task_timeout\<close> and
  \<open>aggregation_strategy\<close> from the \<open>orchestrator\<close> block, in this order, before it
  does anything else: when one of them is missing it raises \<open>KeyError\<close> for the first
  missing key, whatever its collaborators would do, and no agent exists yet that could
  call a model. An orchestrator that was constructed holds the three values of the
  block. The value of \<open>aggregation_strategy\<close> has no effect on aggregation: both
  branches of \<open>aggregate_results\<close> call \<open>_aggregate_consensus\<close>.
\<close>

theorem init_requires_three_keys:
  assumes "orchestrator cfg = Some blk"
  shows "(parallel_agents blk = None \<longrightarrow>
            TaskOrchestrator_init I cfg quiet = Inl (KeyError, [CHR 0x27] @ ''parallel_agents'' @ [CHR 0x27]))
       \<and> (parallel_agents blk \<noteq> None \<and> task_timeout blk = None \<longrightarrow>
            TaskOrchestrator_init I cfg quiet = Inl (KeyError, [CHR 0x27] @ ''task_timeout'' @ [CHR 0x27]))
       \<and> (parallel_agents blk \<noteq> None \<and> task_timeout blk \<noteq> None \<and> aggregation_strategy blk = None \<longrightarrow>
            TaskOrchestrator_init I cfg quiet
              = Inl (KeyError, [CHR 0x27] @ ''aggregation_strategy'' @ [CHR 0x27]))
       \<and> (\<forall>self. TaskOrchestrator_init I cfg quiet = Inr self \<longrightarrow>
            parallel_agents blk = Some (num_agents self)
            \<and> task_timeout blk = Some (self_task_timeout self)
            \<and> aggregation_strategy blk = Some (self_aggregation_strategy self))
       \<and> (\<forall>self s E rs.
            aggregate_results (self \<lparr> self_aggregation_strategy := s \<rparr>) E rs
              = aggregate_results self E rs)"
proof -
  have keys: "(parallel_agents blk = None \<longrightarrow>
            TaskOrchestrator_init I cfg quiet = Inl (KeyError, [CHR 0x27] @ ''parallel_agents'' @ [CHR 0x27]))
       \<and> (parallel_agents blk \<noteq> None \<and> task_timeout blk = None \<longrightarrow>
            TaskOrchestrator_init I cfg quiet = Inl (KeyError, [CHR 0x27] @ ''task_timeout'' @ [CHR 0x27]))
       \<and> (parallel_agents blk \<noteq> None \<and> task_timeout blk \<noteq> None \<and> aggregation_strategy blk = None \<longrightarrow>
            TaskOrchestrator_init I cfg quiet
              = Inl (KeyError, [CHR 0x27] @ ''aggregation_strategy'' @ [CHR 0x27]))"
    using assms by (auto simp: TaskOrchestrator_init_def subscript_def key_error_def)
  have built: "\<forall>self. TaskOrchestrator_init I cfg quiet = Inr self \<longrightarrow>
            parallel_agents blk = Some (num_agents self)
            \<and> task_timeout blk = Some (self_task_timeout self)
            \<and> aggregation_strategy blk = Some (self_aggregation_strategy self)"
    using assms
    by (auto simp: TaskOrchestrator_init_def subscript_def split: option.splits)
  have same: "\<forall>self s E rs.
            aggregate_results (self \<lparr> self_aggregation_strategy := s \<rparr>) E rs
              = aggregate_results self E rs"
    by (simp add: aggregate_results_def aggregate_consensus_strategy Let_def)
  from keys built same show ?thesis by blast
qed

theorem init_requires_three_keys_witness:
  "orchestrator (example_config \<lparr> orchestrator := Some (example_block \<lparr> aggregation_strategy := None \<rparr>) \<rparr>)
     = Some (example_block \<lparr> aggregation_strategy := None \<rparr>)
   \<and> parallel_agents (example_block \<lparr> aggregation_strategy := None \<rparr>) = Some 2
   \<and> task_timeout (example_block \<lparr> aggregation_strategy := None \<rparr>) = Some 300
   \<and> aggregation_strategy (example_block \<lparr> aggregation_strategy := None \<rparr>) = None
   \<and> TaskOrchestrator_init
        \<lparr> load_config = None, model_configuration_manager = None, load_agent_configuration = Inr None \<rparr>
        (example_config \<lparr> orchestrator := Some (example_block \<lparr> aggregation_strategy := None \<rparr>) \<rparr>)
        True
      = Inl (KeyError, [CHR 0x27] @ ''aggregation_strategy'' @ [CHR 0x27])
   \<and> TaskOrchestrator_init
        \<lparr> load_config = None, model_configuration_manager = None, load_agent_configuration = Inr None \<rparr>
        example_config True
      = Inr (example_orchestrator 2)
   \<and> aggregate_results ((example_orchestrator 2) \<lparr> self_aggregation_strategy := ''majority'' \<rparr>)
        (example_env (all_agents (fails ''down''))) [example_result 0 ''success'' ''Answer 1'']
      = (Inr ''Answer 1'', [])"
proof -
  let ?blk = "example_block \<lparr> aggregation_strategy := None \<rparr>"
  let ?cfg = "example_config \<lparr> orchestrator := Some ?blk \<rparr>"
  let ?I = "\<lparr> load_config = None, model_configuration_manager = None,
             load_agent_configuration = Inr None \<rparr>"
  have h: "orchestrator ?cfg = Some ?blk" by (simp add: example_defs)
  have k: "parallel_agents ?blk = Some 2" "task_timeout ?blk = Some 300"
          "aggregation_strategy ?blk = None"
    by (simp_all add: example_defs)
  have ok: "TaskOrchestrator_init ?I example_config True = Inr (example_orchestrator 2)"
    by (simp add: TaskOrchestrator_init_def subscript_def example_defs)
  have ag: "aggregate_results (example_orchestrator 2)
        (example_env (all_agents (fails ''down''))) [example_result 0 ''success'' ''Answer 1'']
      = (Inr ''Answer 1'', [])"
    by (simp add: aggregate_results_def aggregate_consensus_def example_result_def)
  note inst = init_requires_three_keys [OF h, of ?I True]
  from inst k have e: "TaskOrchestrator_init ?I ?cfg True
      = Inl (KeyError, [CHR 0x27] @ ''aggregation_strategy'' @ [CHR 0x27])"
    by simp
  from inst have "\<forall>self s E rs.
            aggregate_results (self \<lparr> self_aggregation_strategy := s \<rparr>) E rs
              = aggregate_results self E rs"
    by blast
  with ag have s: "aggregate_results ((example_orchestrator 2) \<lparr> self_aggregation_strategy := ''majority'' \<rparr>)
        (example_env (all_agents (fails ''down''))) [example_result 0 ''success'' ''Answer 1'']
      = (Inr ''Answer 1'', [])"
    by simp
  from h k e ok s show ?thesis by blast
qed


subsection \<open>Decomposition\<close>

lemma decompose_task_fallback:
  assumes "new_agent E QuestionAgent = Inr qa"
    and "orchestrator (self_config self) = Some blk"
    and "question_generation_prompt blk = Some template"
    and "format (lib E) template [(''user_input'', user_input), (''num_agents'', str_int n)]
           = Inr prompt"
    and "generate_questions E (strip_completion_tool qa) prompt n = Inl e"
    and "is_ValueError e"
  shows "decompose_task self E user_input n
           = Inr (JArr (map JStr (py_take n (fallback_questions user_input))))"
  using assms by (simp add: decompose_task_def subscript_def)

text \<open>
  C4. When the answer of the question agent is not JSON, or is JSON of a length other
  than the requested count \<open>n\<close>, \<open>decompose_task\<close> returns the slice \<open>[:n]\<close> of the
  four fixed templates, each ending with the user input: all four when \<open>n \<ge> 4\<close>, only
  the first \<open>n\<close> of them when \<open>0 \<le> n < 4\<close>.
\<close>

theorem decompose_fallback_is_first_n_templates:
  assumes "new_agent E QuestionAgent = Inr qa"
    and "orchestrator (self_config self) = Some blk"
    and "question_generation_prompt blk = Some template"
    and "format (lib E) template [(''user_input'', user_input), (''num_agents'', str_int n)]
           = Inr prompt"
    and "fst (run (lib E) (strip_completion_tool qa) (JStr prompt)) = Inr answer"
    and "(\<exists>m. loads (lib E) (strip answer) = Inl (JSONDecodeError, m))
         \<or> (\<exists>v k. loads (lib E) (strip answer) = Inr v \<and> py_len v = Inr k \<and> int k \<noteq> n)"
  shows "decompose_task self E user_input n
           = Inr (JArr (map JStr (py_take n (fallback_questions user_input))))
       \<and> fallback_questions user_input
           = [''Research comprehensive information about: '' @ user_input,
              ''Analyze and provide insights about: '' @ user_input,
              ''Find alternative perspectives on: '' @ user_input,
              ''Verify and cross-check facts about: '' @ user_input]
       \<and> (4 \<le> n \<longrightarrow> py_take n (fallback_questions user_input) = fallback_questions user_input)
       \<and> (0 \<le> n \<and> n \<le> 4 \<longrightarrow>
            py_take n (fallback_questions user_input) = take (nat n) (fallback_questions user_input)
            \<and> length (py_take n (fallback_questions user_input)) = nat n)"
proof -
  from assms(5,6) obtain e where g: "generate_questions E (strip_completion_tool qa) prompt n = Inl e"
    and v: "is_ValueError e"
    by (auto simp: generate_questions_def)
  note d = decompose_task_fallback [OF assms(1-4) g v]
  have c: "fallback_questions user_input
           = [''Research comprehensive information about: '' @ user_input,
              ''Analyze and provide insights about: '' @ user_input,
              ''Find alternative perspectives on: '' @ user_input,
              ''Verify and cross-check facts about: '' @ user_input]"
    by (simp add: fallback_questions_def)
  have len: "length (fallback_questions user_input) = 4"
    by (simp add: fallback_questions_def)
  have a: "4 \<le> n \<longrightarrow> py_take n (fallback_questions user_input) = fallback_questions user_input"
    using len by (simp add: py_take_def)
  have b: "0 \<le> n \<and> n \<le> 4 \<longrightarrow>
            py_take n (fallback_questions user_input) = take (nat n) (fallback_questions user_input)
            \<and> length (py_take n (fallback_questions user_input)) = nat n"
    using len by (auto simp: py_take_def)
  show ?thesis by (rule conjI [OF d conjI [OF c conjI [OF a b]]])
qed


theorem decompose_fallback_is_first_n_templates_witness:
  "decompose_task (example_orchestrator 3)
      (example_env (all_agents (says ''Sorry, I cannot do that.''))) ''q'' 3
     = Inr (JArr (map JStr (py_take 3 (fallback_questions ''q''))))
   \<and> py_take 3 (fallback_questions ''q'')
     = [''Research comprehensive information about: q'',
        ''Analyze and provide insights about: q'',
        ''Find alternative perspectives on: q'']"
proof -
  let ?E = "example_env (all_agents (says ''Sorry, I cannot do that.''))"
  let ?qa = "example_agent (says ''Sorry, I cannot do that.'')"
  let ?answer = "''Sorry, I cannot do that.'' @ nl @ nl @ ''Sorry, I cannot do that.''"
  have 1: "new_agent ?E QuestionAgent = Inr ?qa" by (simp add: example_defs)
  have 2: "orchestrator (self_config (example_orchestrator 3)) = Some example_block"
    by (simp add: example_defs)
  have 3: "question_generation_prompt example_block = Some ''Generate the questions as a JSON array.''"
    by (simp add: example_defs)
  have 4: "format (lib ?E) ''Generate the questions as a JSON array.''
             [(''user_input'', ''q''), (''num_agents'', str_int 3)]
           = Inr ''Generate the questions as a JSON array.''"
    by (simp add: example_defs)
  have 5: "fst (run (lib ?E) (strip_completion_tool ?qa)
                 (JStr ''Generate the questions as a JSON array.'')) = Inr ?answer"
    by (simp add: example_defs strip_completion_tool_def agent_defs)
  have "loads (lib ?E) (strip ?answer) = Inl (JSONDecodeError, ''Expecting value'')"
    by (simp add: example_defs strip_def is_space_def nl_def)
  then have 6: "(\<exists>m. loads (lib ?E) (strip ?answer) = Inl (JSONDecodeError, m))
         \<or> (\<exists>v k. loads (lib ?E) (strip ?answer) = Inr v \<and> py_len v = Inr k \<and> int k \<noteq> 3)"
    by blast
  have t: "py_take 3 (fallback_questions ''q'')
     = [''Research comprehensive information about: q'',
        ''Analyze and provide insights about: q'',
        ''Find alternative perspectives on: q'']"
    by (simp add: py_take_def fallback_questions_def)
  from decompose_fallback_is_first_n_templates [OF 1 2 3 4 5 6]
  have "decompose_task (example_orchestrator 3) ?E ''q'' 3
     = Inr (JArr (map JStr (py_take 3 (fallback_questions ''q''))))"
    by (rule conjunct1)
  then show ?thesis using t by simp
qed

text \<open>
  The statement of C4 as it is written fails for a request of two questions: the
  answer is not JSON, and the result holds two templates, not four.
\<close>

theorem fallback_is_not_always_four_templates:
  "loads example_lib (strip (''Sorry, I cannot do that.'' @ nl @ nl @ ''Sorry, I cannot do that.''))
     = Inl (JSONDecodeError, ''Expecting value'')
   \<and> decompose_task (example_orchestrator 2)
        (example_env (all_agents (says ''Sorry, I cannot do that.''))) ''q'' 2
     = Inr (JArr [JStr ''Research comprehensive information about: q'',
                  JStr ''Analyze and provide insights about: q''])
   \<and> decompose_task (example_orchestrator 2)
        (example_env (all_agents (says ''Sorry, I cannot do that.''))) ''q'' 2
     \<noteq> Inr (JArr (map JStr (fallback_questions ''q'')))"
proof -
  have l: "loads example_lib (strip (''Sorry, I cannot do that.'' @ nl @ nl @ ''Sorry, I cannot do that.''))
     = Inl (JSONDecodeError, ''Expecting value'')"
    by (simp add: example_defs strip_def is_space_def nl_def)
  have d: "decompose_task (example_orchestrator 2)
        (example_env (all_agents (says ''Sorry, I cannot do that.''))) ''q'' 2
     = Inr (JArr [JStr ''Research comprehensive information about: q'',
                  JStr ''Analyze and provide insights about: q''])"
    by (simp add: example_defs decompose_defs agent_defs)
  have n: "decompose_task (example_orchestrator 2)
        (example_env (all_agents (says ''Sorry, I cannot do that.''))) ''q'' 2
     \<noteq> Inr (JArr (map JStr (fallback_questions ''q'')))"
    unfolding d by (simp add: fallback_questions_def)
  from l d n show ?thesis by blast
qed

text \<open>
  C3. For five agents and an answer of the question agent that is not JSON,
  \<open>decompose_task\<close> returns four strings, not five: the fallback is the slice
  \<open>[:5]\<close> of a list of four. \<open>orchestrate\<close> then reads \<open>subtasks[4]\<close> and
  raises \<open>IndexError\<close>.
\<close>

theorem decompose_task_five_agents_gives_four:
  "decompose_task (example_orchestrator 5)
      (example_env (all_agents (says ''Sorry, I cannot do that.''))) ''q'' 5
     = Inr (JArr [JStr ''Research comprehensive information about: q'',
                  JStr ''Analyze and provide insights about: q'',
                  JStr ''Find alternative perspectives on: q'',
                  JStr ''Verify and cross-check facts about: q''])
   \<and> py_len (JArr [JStr ''Research comprehensive information about: q'',
                   JStr ''Analyze and provide insights about: q'',
                   JStr ''Find alternative perspectives on: q'',
                   JStr ''Verify and cross-check facts about: q'']) = Inr 4
   \<and> orchestrate (example_orchestrator 5)
        (example_env (all_agents (says ''Sorry, I cannot do that.''))) [0, 1, 2, 3, 4] ''q''
     = Inl (IndexError, ''list index out of range'')"
proof -
  have d: "decompose_task (example_orchestrator 5)
      (example_env (all_agents (says ''Sorry, I cannot do that.''))) ''q'' 5
     = Inr (JArr [JStr ''Research comprehensive information about: q'',
                  JStr ''Analyze and provide insights about: q'',
                  JStr ''Find alternative perspectives on: q'',
                  JStr ''Verify and cross-check facts about: q''])"
    by (simp add: example_defs decompose_defs agent_defs)
  have l: "py_len (JArr [JStr ''Research comprehensive information about: q'',
                   JStr ''Analyze and provide insights about: q'',
                   JStr ''Find alternative perspectives on: q'',
                   JStr ''Verify and cross-check facts about: q'']) = Inr 4"
    by (simp add: py_len_def)
  have n: "num_agents (example_orchestrator 5) = 5" by (simp add: example_defs)
  have o: "orchestrate (example_orchestrator 5)
        (example_env (all_agents (says ''Sorry, I cannot do that.''))) [0, 1, 2, 3, 4] ''q''
     = Inl (IndexError, ''list index out of range'')"
    unfolding orchestrate_def n d
    by (simp add: py_index_def upt_rec)
  from d l o show ?thesis by blast
qed

subsection \<open>The batch\<close>

text \<open>
  C2. Two workers, of which only worker 0 completes before the batch timeout:
  \<open>as_completed\<close> raises \<open>TimeoutError\<close> in the header of the \<open>for\<close> statement,
  outside the \<open>try\<close> of the loop body, so no record of status \<open>timeout\<close> is
  appended, aggregation is not reached and \<open>orchestrate\<close> raises. When both
  workers complete in time the same run returns the synthesized answer.
\<close>

theorem orchestrate_raises_on_batch_timeout:
  "orchestrate (example_orchestrator 2) (example_env (all_agents (says ''Answer''))) [0] ''q''
     = Inl (TimeoutError, ''1 (of 2) futures unfinished'')
   \<and> orchestrate (example_orchestrator 2) (example_env (all_agents (says ''Answer''))) [1, 0] ''q''
     = Inr (''Answer'' @ nl @ nl @ ''Answer'')"
proof -
  have d: "decompose_task (example_orchestrator 2) (example_env (all_agents (says ''Answer''))) ''q''
             (num_agents (example_orchestrator 2))
     = Inr (JArr [JStr ''Research comprehensive information about: q'',
                  JStr ''Analyze and provide insights about: q''])"
    by (simp add: example_defs decompose_defs agent_defs)
  have a: "orchestrate (example_orchestrator 2) (example_env (all_agents (says ''Answer''))) [0] ''q''
     = Inl (TimeoutError, ''1 (of 2) futures unfinished'')"
    unfolding orchestrate_def d
    by (simp add: example_defs py_index_def collect_results_def upt_rec)
  have b: "orchestrate (example_orchestrator 2) (example_env (all_agents (says ''Answer''))) [1, 0] ''q''
     = Inr (''Answer'' @ nl @ nl @ ''Answer'')"
    unfolding orchestrate_def d
    by (simp add: example_defs agent_defs batch_defs upt_rec worker_defs aggregation_defs)
  from a b show ?thesis by (rule conjI)
qed











end
